theory Spec2Isabelle
  imports Main "HOL-Library.Multiset"
begin

section \<open>Python values and built-ins used by the feed code\<close>

text \<open>
  The two modules \<^verbatim>\<open>seller.py\<close> (Ozon) and \<^verbatim>\<open>market.py\<close> (Yandex Market) are embedded
  here. Exceptions are values of \<open>error\<close>; a function that can raise returns
  \<open>error + 'a\<close> with the exception on the left.

  Python strings are modelled as \<open>string\<close>, read as the UTF-8 encoding of the text. The
  code compares strings for equality, splits at the ASCII full stop and keeps the ASCII
  digits, and all of these commute with the encoding. The built-in \<^verbatim>\<open>int\<close> looks at code
  points, so its model decodes the bytes first.
\<close>

datatype error = ValueError | TypeError | AttributeError | IndexError | HTTPError

text \<open>
  A cell of a feed row, as \<^verbatim>\<open>watch.get(key)\<close> returns it: a string, an integer, or
  \<^verbatim>\<open>None\<close> when the column is missing.
\<close>

datatype cell = CStr string | CInt int | CNone

definition is_digit :: "char \<Rightarrow> bool" where
  "is_digit c = (c \<in> set ''0123456789'')"

definition digit_val :: "char \<Rightarrow> nat" where
  "digit_val c = of_char c - 48"

text \<open>The number that a string of decimal digits denotes, most significant digit first.\<close>

definition decimal :: "string \<Rightarrow> nat" where
  "decimal ds = foldl (\<lambda>acc c. 10 * acc + digit_val c) 0 ds"

fun str_nat :: "nat \<Rightarrow> string" where
  "str_nat n =
     (if n < 10 then [''0123456789'' ! n]
      else str_nat (n div 10) @ [''0123456789'' ! (n mod 10)])"

declare str_nat.simps [simp del]

definition str_int :: "int \<Rightarrow> string" where
  "str_int i = (if i < 0 then CHR ''-'' # str_nat (nat (- i)) else str_nat (nat i))"

text \<open>\<^verbatim>\<open>str(x)\<close> on a cell.\<close>

fun py_str :: "cell \<Rightarrow> string" where
  "py_str (CStr s) = s"
| "py_str (CInt i) = str_int i"
| "py_str CNone = ''None''"

subsection \<open>The built-in \<^verbatim>\<open>int\<close> on a string\<close>

text \<open>
  CPython reads a string in two steps. A string with a character beyond ASCII is first
  rewritten to ASCII: a character below 127 is kept, a character for which
  \<^verbatim>\<open>str.isspace\<close> holds becomes a blank, a character with a decimal digit value becomes
  that ASCII digit, and at any other character the text is cut and ends with a question
  mark. A string of ASCII characters only is taken as it is.

  One character of the UTF-8 text: the number of its bytes, from the first byte, and its
  code point, from its bytes.
\<close>

definition utf8_width :: "nat \<Rightarrow> nat" where
  "utf8_width b = (if b < 128 then 1 else if b < 224 then 2 else if b < 240 then 3 else 4)"

fun utf8_code :: "nat list \<Rightarrow> nat" where
  "utf8_code [b] = (if b < 128 then b else 65533)"
| "utf8_code [b, c] = (b - 192) * 64 + (c - 128)"
| "utf8_code [b, c, d] = ((b - 224) * 64 + (c - 128)) * 64 + (d - 128)"
| "utf8_code [b, c, d, e] = (((b - 240) * 64 + (c - 128)) * 64 + (d - 128)) * 64 + (e - 128)"
| "utf8_code bs = 65533"

text \<open>The code points for which \<^verbatim>\<open>str.isspace\<close> holds.\<close>

definition unicode_space :: "nat \<Rightarrow> bool" where
  "unicode_space n =
     (n \<in> {9, 10, 11, 12, 13, 28, 29, 30, 31, 32, 133, 160, 5760, 8232, 8233, 8239, 8287, 12288}
      \<or> (8192 \<le> n \<and> n \<le> 8202))"

text \<open>
  The decimal digits of Unicode 14.0, the character database of CPython 3.11: every script
  has its ten digits in a row, and the list names the code point of each zero.
\<close>

definition decimal_zeros :: "nat list" where
  "decimal_zeros =
     [0x30, 0x660, 0x6F0, 0x7C0, 0x966, 0x9E6, 0xA66, 0xAE6, 0xB66, 0xBE6, 0xC66, 0xCE6,
      0xD66, 0xDE6, 0xE50, 0xED0, 0xF20, 0x1040, 0x1090, 0x17E0, 0x1810, 0x1946, 0x19D0,
      0x1A80, 0x1A90, 0x1B50, 0x1BB0, 0x1C40, 0x1C50, 0xA620, 0xA8D0, 0xA900, 0xA9D0,
      0xA9F0, 0xAA50, 0xABF0, 0xFF10, 0x104A0, 0x10D30, 0x11066, 0x110F0, 0x11136,
      0x111D0, 0x112F0, 0x11450, 0x114D0, 0x11650, 0x116C0, 0x11730, 0x118E0, 0x11950,
      0x11C50, 0x11D50, 0x11DA0, 0x16A60, 0x16AC0, 0x16B50, 0x1D7CE, 0x1D7D8, 0x1D7E2,
      0x1D7EC, 0x1D7F6, 0x1E140, 0x1E2F0, 0x1E950, 0x1FBF0]"

definition unicode_decimal :: "nat \<Rightarrow> nat option" where
  "unicode_decimal n =
     (case filter (\<lambda>z. z \<le> n \<and> n < z + 10) decimal_zeros of
        [] \<Rightarrow> None
      | z # zs \<Rightarrow> Some (n - z))"

definition ascii_of :: "nat \<Rightarrow> char option" where
  "ascii_of n =
     (if unicode_space n then Some (CHR '' '')
      else (case unicode_decimal n of
              Some d \<Rightarrow> Some (''0123456789'' ! d)
            | None \<Rightarrow> None))"

fun transform :: "string \<Rightarrow> string" where
  "transform [] = []"
| "transform (b # bs) =
     (if (of_char b :: nat) < 127 then b # transform bs
      else
        (case ascii_of (utf8_code (map of_char (take (utf8_width (of_char b)) (b # bs)))) of
           Some c \<Rightarrow> c # transform (drop (utf8_width (of_char b) - 1) bs)
         | None \<Rightarrow> ''?''))"

definition to_ascii :: "string \<Rightarrow> string" where
  "to_ascii s = (if list_all (\<lambda>c. (of_char c :: nat) < 128) s then s else transform s)"

text \<open>
  The ASCII text is then scanned: white space of the C locale is skipped at both ends, a
  sign may come first, and the rest must be decimal digits, with single underscores
  allowed between two digits.
\<close>

definition is_space :: "char \<Rightarrow> bool" where
  "is_space c = ((of_char c :: nat) \<in> {9, 10, 11, 12, 13, 32})"

definition strip :: "string \<Rightarrow> string" where
  "strip s = rev (dropWhile is_space (rev (dropWhile is_space s)))"

text \<open>\<open>prev\<close> tells whether the character just read was a digit.\<close>

fun int_digits :: "bool \<Rightarrow> nat \<Rightarrow> string \<Rightarrow> nat option" where
  "int_digits prev acc [] = (if prev then Some acc else None)"
| "int_digits prev acc (c # cs) =
     (if is_digit c then int_digits True (10 * acc + digit_val c) cs
      else if c = CHR ''_'' \<and> prev then int_digits False acc cs
      else None)"

text \<open>
  The interpreter refuses a number with more digits than
  \<^verbatim>\<open>sys.get_int_max_str_digits()\<close>, 4300 unless the process is configured otherwise.
\<close>

definition max_str_digits :: nat where
  "max_str_digits = 4300"

definition read_digits :: "string \<Rightarrow> nat option" where
  "read_digits cs =
     (case int_digits False 0 cs of
        None \<Rightarrow> None
      | Some n \<Rightarrow> if max_str_digits < length (filter is_digit cs) then None else Some n)"

text \<open>\<^verbatim>\<open>int(s)\<close> on a string. Every failure is a \<^verbatim>\<open>ValueError\<close>.\<close>

definition int_str :: "string \<Rightarrow> error + int" where
  "int_str s =
     (case strip (to_ascii s) of
        [] \<Rightarrow> Inl ValueError
      | c # cs \<Rightarrow>
          (if c = CHR ''-'' then
             (case read_digits cs of None \<Rightarrow> Inl ValueError | Some n \<Rightarrow> Inr (- int n))
           else if c = CHR ''+'' then
             (case read_digits cs of None \<Rightarrow> Inl ValueError | Some n \<Rightarrow> Inr (int n))
           else
             (case read_digits (c # cs) of None \<Rightarrow> Inl ValueError | Some n \<Rightarrow> Inr (int n))))"

text \<open>\<^verbatim>\<open>int(x)\<close> on a cell.\<close>

fun py_int :: "cell \<Rightarrow> error + int" where
  "py_int (CStr s) = int_str s"
| "py_int (CInt i) = Inr i"
| "py_int CNone = Inl TypeError"

subsection \<open>A base-10 integer, as a grammar\<close>




section \<open>Feed rows and the two normalisers\<close>

text \<open>
  A feed row is the dictionary of one spreadsheet line. The code reads three of its keys,
  written in Cyrillic in the source: the item code (\<open>Kod\<close>), the quantity
  (\<open>Kolichestvo\<close>) and the price (\<open>Tsena\<close>).
\<close>

record watch =
  Kod :: cell
  Kolichestvo :: cell
  Tsena :: cell

text \<open>
  The quantity rule, written inline in both \<^verbatim>\<open>create_stocks\<close> functions
  (\<^verbatim>\<open>seller.py\<close> lines 226 to 232, \<^verbatim>\<open>market.py\<close> lines 185 to 191): the sentinels are
  compared on \<^verbatim>\<open>str\<close> of the cell, the fallback applies \<^verbatim>\<open>int\<close> to the cell itself.
\<close>

definition stock_count :: "cell \<Rightarrow> error + int" where
  "stock_count quantity =
     (let count = py_str quantity in
      if count = ''>10'' then Inr 100
      else if count = ''1'' then Inr 0
      else py_int quantity)"

text \<open>\<^verbatim>\<open>price.split(".")[0]\<close>: the text before the first full stop.\<close>

definition split_first :: "string \<Rightarrow> string" where
  "split_first price = takeWhile (\<lambda>c. c \<noteq> CHR ''.'') price"

text \<open>\<^verbatim>\<open>re.sub("[^0-9]", "", t)\<close>: every character that is not an ASCII digit is dropped.\<close>

definition re_sub_non_digits :: "string \<Rightarrow> string" where
  "re_sub_non_digits t = filter is_digit t"

text \<open>
  \<^verbatim>\<open>price_conversion\<close> of \<^verbatim>\<open>seller.py\<close>. It is called on the price cell; a cell that is not
  a string has no \<^verbatim>\<open>split\<close> method.
\<close>

fun price_conversion :: "cell \<Rightarrow> error + string" where
  "price_conversion (CStr price) = Inr (re_sub_non_digits (split_first price))"
| "price_conversion (CInt i) = Inl AttributeError"
| "price_conversion CNone = Inl AttributeError"

text \<open>\<^verbatim>\<open>int(price_conversion(...))\<close>, the price value of \<^verbatim>\<open>market.py\<close> line 261.\<close>

definition price_value :: "cell \<Rightarrow> error + int" where
  "price_value price =
     (case price_conversion price of Inl e \<Rightarrow> Inl e | Inr digits \<Rightarrow> int_str digits)"

section \<open>Reconciliation for Ozon (\<^verbatim>\<open>seller.py\<close>)\<close>

text \<open>
  The dictionary \<^verbatim>\<open>{"offer_id": ..., "stock": ...}\<close>. Record fields are global names, so
  the key \<^verbatim>\<open>offer_id\<close> is \<open>stock_offer_id\<close> here and \<open>price_offer_id\<close> in the price record.
\<close>

record seller_stock =
  stock_offer_id :: string
  stock :: int

record seller_price =
  auto_action_enabled :: string
  currency_code :: string
  price_offer_id :: string
  old_price :: string
  price :: string

text \<open>
  The first loop of \<^verbatim>\<open>create_stocks\<close>. \<^verbatim>\<open>offer_ids\<close> is the caller's list and
  \<^verbatim>\<open>offer_ids.remove\<close> changes it in place, so the list is threaded through and returned,
  also when an exception leaves the loop. \<^verbatim>\<open>list.remove\<close> deletes the first occurrence.
\<close>

fun seller_stocks_loop ::
  "watch list \<Rightarrow> string list \<Rightarrow> seller_stock list \<Rightarrow> (error + seller_stock list) \<times> string list"
where
  "seller_stocks_loop [] offer_ids stocks = (Inr stocks, offer_ids)"
| "seller_stocks_loop (watch # rest) offer_ids stocks =
     (if py_str (Kod watch) \<in> set offer_ids then
        (case stock_count (Kolichestvo watch) of
           Inl e \<Rightarrow> (Inl e, offer_ids)
         | Inr st \<Rightarrow>
             seller_stocks_loop rest (remove1 (py_str (Kod watch)) offer_ids)
               (stocks @ [\<lparr>stock_offer_id = py_str (Kod watch), stock = st\<rparr>]))
      else seller_stocks_loop rest offer_ids stocks)"

text \<open>
  \<^verbatim>\<open>create_stocks\<close>: the first component is the returned list or the exception, the second
  is the caller's \<^verbatim>\<open>offer_ids\<close> after the call.
\<close>

definition seller_create_stocks ::
  "watch list \<Rightarrow> string list \<Rightarrow> (error + seller_stock list) \<times> string list"
where
  "seller_create_stocks watch_remnants offer_ids =
     (case seller_stocks_loop watch_remnants offer_ids [] of
        (Inl e, offer_ids') \<Rightarrow> (Inl e, offer_ids')
      | (Inr stocks, offer_ids') \<Rightarrow>
          (Inr (stocks @ map (\<lambda>offer_id. \<lparr>stock_offer_id = offer_id, stock = 0\<rparr>) offer_ids'),
           offer_ids'))"

fun seller_prices_loop ::
  "watch list \<Rightarrow> string list \<Rightarrow> seller_price list \<Rightarrow> error + seller_price list"
where
  "seller_prices_loop [] offer_ids prices = Inr prices"
| "seller_prices_loop (watch # rest) offer_ids prices =
     (if py_str (Kod watch) \<in> set offer_ids then
        (case price_conversion (Tsena watch) of
           Inl e \<Rightarrow> Inl e
         | Inr p \<Rightarrow>
             seller_prices_loop rest offer_ids
               (prices @ [\<lparr>auto_action_enabled = ''UNKNOWN'', currency_code = ''RUB'',
                           price_offer_id = py_str (Kod watch), old_price = ''0'',
                           price = p\<rparr>]))
      else seller_prices_loop rest offer_ids prices)"

definition seller_create_prices :: "watch list \<Rightarrow> string list \<Rightarrow> error + seller_price list" where
  "seller_create_prices watch_remnants offer_ids = seller_prices_loop watch_remnants offer_ids []"

section \<open>Reconciliation for Yandex Market (\<^verbatim>\<open>market.py\<close>)\<close>

text \<open>
  The nested dictionaries of \<^verbatim>\<open>market.py\<close>. The keys \<^verbatim>\<open>count\<close>, \<^verbatim>\<open>type\<close>, \<^verbatim>\<open>id\<close>,
  \<^verbatim>\<open>price\<close> and \<^verbatim>\<open>value\<close> are \<open>item_count\<close>, \<open>item_type\<close>, \<open>offer_price_id\<close>,
  \<open>offer_price\<close> and \<open>money_value\<close> here.
\<close>

record market_item =
  item_count :: int
  item_type :: string
  updatedAt :: string

record market_stock =
  sku :: string
  warehouseId :: string
  items :: "market_item list"

record market_money =
  money_value :: int
  currencyId :: string

record market_price =
  offer_price_id :: string
  offer_price :: market_money

text \<open>
  \<open>date\<close> is the time stamp that \<^verbatim>\<open>create_stocks\<close> reads from the clock once, before the
  loop; it is a parameter here.
\<close>

fun market_stocks_loop ::
  "string \<Rightarrow> string \<Rightarrow> watch list \<Rightarrow> string list \<Rightarrow> market_stock list
    \<Rightarrow> (error + market_stock list) \<times> string list"
where
  "market_stocks_loop warehouse_id date [] offer_ids stocks = (Inr stocks, offer_ids)"
| "market_stocks_loop warehouse_id date (watch # rest) offer_ids stocks =
     (if py_str (Kod watch) \<in> set offer_ids then
        (case stock_count (Kolichestvo watch) of
           Inl e \<Rightarrow> (Inl e, offer_ids)
         | Inr st \<Rightarrow>
             market_stocks_loop warehouse_id date rest (remove1 (py_str (Kod watch)) offer_ids)
               (stocks @ [\<lparr>sku = py_str (Kod watch), warehouseId = warehouse_id,
                           items = [\<lparr>item_count = st, item_type = ''FIT'',
                                     updatedAt = date\<rparr>]\<rparr>]))
      else market_stocks_loop warehouse_id date rest offer_ids stocks)"

definition market_create_stocks ::
  "string \<Rightarrow> watch list \<Rightarrow> string list \<Rightarrow> string \<Rightarrow> (error + market_stock list) \<times> string list"
where
  "market_create_stocks date watch_remnants offer_ids warehouse_id =
     (case market_stocks_loop warehouse_id date watch_remnants offer_ids [] of
        (Inl e, offer_ids') \<Rightarrow> (Inl e, offer_ids')
      | (Inr stocks, offer_ids') \<Rightarrow>
          (Inr (stocks @
                map (\<lambda>offer_id. \<lparr>sku = offer_id, warehouseId = warehouse_id,
                                  items = [\<lparr>item_count = 0, item_type = ''FIT'',
                                            updatedAt = date\<rparr>]\<rparr>) offer_ids'),
           offer_ids'))"

fun market_prices_loop ::
  "watch list \<Rightarrow> string list \<Rightarrow> market_price list \<Rightarrow> error + market_price list"
where
  "market_prices_loop [] offer_ids prices = Inr prices"
| "market_prices_loop (watch # rest) offer_ids prices =
     (if py_str (Kod watch) \<in> set offer_ids then
        (case price_value (Tsena watch) of
           Inl e \<Rightarrow> Inl e
         | Inr v \<Rightarrow>
             market_prices_loop rest offer_ids
               (prices @ [\<lparr>offer_price_id = py_str (Kod watch),
                           offer_price = \<lparr>money_value = v, currencyId = ''RUR''\<rparr>\<rparr>]))
      else market_prices_loop rest offer_ids prices)"

definition market_create_prices :: "watch list \<Rightarrow> string list \<Rightarrow> error + market_price list" where
  "market_create_prices watch_remnants offer_ids = market_prices_loop watch_remnants offer_ids []"

section \<open>Batching\<close>

text \<open>\<^verbatim>\<open>range(0, stop, step)\<close> for a positive step, and the slice \<^verbatim>\<open>lst[i : i + n]\<close>.\<close>

definition range_step :: "nat \<Rightarrow> nat \<Rightarrow> nat list" where
  "range_step stop step = map (\<lambda>k. k * step) [0 ..< (stop + step - 1) div step]"

definition slice :: "'a list \<Rightarrow> nat \<Rightarrow> nat \<Rightarrow> 'a list" where
  "slice lst i j = take (j - i) (drop i lst)"

text \<open>
  \<^verbatim>\<open>list(divide(lst, n))\<close>. \<^verbatim>\<open>range\<close> raises on a zero step and is empty for a negative
  step and a non-negative stop.
\<close>

definition divide_list :: "'a list \<Rightarrow> int \<Rightarrow> error + 'a list list" where
  "divide_list lst n =
     (if n = 0 then Inl ValueError
      else if n < 0 then Inr []
      else Inr (map (\<lambda>i. slice lst i (i + nat n)) (range_step (length lst) (nat n))))"

section \<open>Paging through the offer lists\<close>

text \<open>
  \<^verbatim>\<open>get_product_list\<close> is an HTTP request. It is a parameter of the model: a function from
  the cursor that is sent to the decoded \<^verbatim>\<open>result\<close> object, or to the exception that
  \<^verbatim>\<open>raise_for_status\<close> raises. The \<^verbatim>\<open>while True\<close> loops end only when the marketplace
  signals the last page, so they are partial functions: \<open>None\<close> is a loop that never
  returns.

  The Ozon result has the keys \<^verbatim>\<open>items\<close>, \<^verbatim>\<open>total\<close> and \<^verbatim>\<open>last_id\<close>.
\<close>

record product =
  offer_id :: string

record seller_result =
  result_items :: "product list"
  result_total :: int
  result_last_id :: string

partial_function (option) seller_pages_loop ::
  "(string \<Rightarrow> error + seller_result) \<Rightarrow> string \<Rightarrow> product list \<Rightarrow> (error + product list) option"
where
  "seller_pages_loop get_product_list last_id product_list =
     (case get_product_list last_id of
        Inl e \<Rightarrow> Some (Inl e)
      | Inr some_prod \<Rightarrow>
          (if result_total some_prod = int (length (product_list @ result_items some_prod))
           then Some (Inr (product_list @ result_items some_prod))
           else seller_pages_loop get_product_list (result_last_id some_prod)
                  (product_list @ result_items some_prod)))"

definition seller_get_offer_ids ::
  "(string \<Rightarrow> error + seller_result) \<Rightarrow> (error + string list) option"
where
  "seller_get_offer_ids get_product_list =
     (case seller_pages_loop get_product_list [] [] of
        None \<Rightarrow> None
      | Some (Inl e) \<Rightarrow> Some (Inl e)
      | Some (Inr product_list) \<Rightarrow> Some (Inr (map offer_id product_list)))"

text \<open>
  The Yandex Market result has the keys \<^verbatim>\<open>offerMappingEntries\<close> and \<^verbatim>\<open>paging\<close>; the next
  page token may be missing (\<open>None\<close>) or empty, and \<^verbatim>\<open>not page\<close> holds in both cases.
\<close>

record market_offer =
  shopSku :: string

record mapping_entry =
  offer :: market_offer

record market_paging =
  nextPageToken :: "string option"

record market_result =
  offerMappingEntries :: "mapping_entry list"
  paging :: market_paging

partial_function (option) market_pages_loop ::
  "(string \<Rightarrow> error + market_result) \<Rightarrow> string \<Rightarrow> mapping_entry list
    \<Rightarrow> (error + mapping_entry list) option"
where
  "market_pages_loop get_product_list page product_list =
     (case get_product_list page of
        Inl e \<Rightarrow> Some (Inl e)
      | Inr some_prod \<Rightarrow>
          (case nextPageToken (paging some_prod) of
             None \<Rightarrow> Some (Inr (product_list @ offerMappingEntries some_prod))
           | Some page' \<Rightarrow>
               (if page' = [] then Some (Inr (product_list @ offerMappingEntries some_prod))
                else market_pages_loop get_product_list page'
                       (product_list @ offerMappingEntries some_prod))))"

definition market_get_offer_ids ::
  "(string \<Rightarrow> error + market_result) \<Rightarrow> (error + string list) option"
where
  "market_get_offer_ids get_product_list =
     (case market_pages_loop get_product_list [] [] of
        None \<Rightarrow> None
      | Some (Inl e) \<Rightarrow> Some (Inl e)
      | Some (Inr product_list) \<Rightarrow> Some (Inr (map (\<lambda>product. shopSku (offer product)) product_list)))"

text \<open>
  A run of pages as the marketplace serves them to the loop: each page is the answer to the
  cursor the loop sends next, the continuation signal is not yet satisfied on any page but
  the last, and it is satisfied on the last. \<open>acc\<close> is the product list gathered before
  the run.
\<close>

fun seller_served ::
  "(string \<Rightarrow> error + seller_result) \<Rightarrow> string \<Rightarrow> product list \<Rightarrow> seller_result list \<Rightarrow> bool"
where
  "seller_served get_product_list cursor acc [] = False"
| "seller_served get_product_list cursor acc [p] =
     (get_product_list cursor = Inr p \<and>
      result_total p = int (length (acc @ result_items p)))"
| "seller_served get_product_list cursor acc (p # q # ps) =
     (get_product_list cursor = Inr p \<and>
      result_total p \<noteq> int (length (acc @ result_items p)) \<and>
      seller_served get_product_list (result_last_id p) (acc @ result_items p) (q # ps))"

definition last_page :: "market_result \<Rightarrow> bool" where
  "last_page p = (nextPageToken (paging p) = None \<or> nextPageToken (paging p) = Some [])"

fun market_served ::
  "(string \<Rightarrow> error + market_result) \<Rightarrow> string \<Rightarrow> market_result list \<Rightarrow> bool"
where
  "market_served get_product_list cursor [] = False"
| "market_served get_product_list cursor [p] = (get_product_list cursor = Inr p \<and> last_page p)"
| "market_served get_product_list cursor (p # q # ps) =
     (get_product_list cursor = Inr p \<and>
      (case nextPageToken (paging p) of
         None \<Rightarrow> False
       | Some page' \<Rightarrow> page' \<noteq> [] \<and> market_served get_product_list page' (q # ps)))"

section \<open>The stock upload pipelines\<close>

text \<open>
  \<^verbatim>\<open>update_stocks\<close> is an HTTP request as well: a function from the chunk that is sent to
  the exception it raises, or \<open>None\<close> when the request succeeds. The loop over the
  chunks stops at the first exception.
\<close>

fun push_chunks :: "('a list \<Rightarrow> error option) \<Rightarrow> 'a list list \<Rightarrow> error option" where
  "push_chunks update [] = None"
| "push_chunks update (chunk # rest) =
     (case update chunk of Some e \<Rightarrow> Some e | None \<Rightarrow> push_chunks update rest)"

text \<open>\<^verbatim>\<open>upload_stocks\<close> of \<^verbatim>\<open>seller.py\<close>; the result is the pair \<^verbatim>\<open>(not_empty, stocks)\<close>.\<close>

definition seller_upload_stocks ::
  "(string \<Rightarrow> error + seller_result) \<Rightarrow> (seller_stock list \<Rightarrow> error option) \<Rightarrow> watch list
    \<Rightarrow> (error + seller_stock list \<times> seller_stock list) option"
where
  "seller_upload_stocks get_product_list update_stocks watch_remnants =
     (case seller_get_offer_ids get_product_list of
        None \<Rightarrow> None
      | Some (Inl e) \<Rightarrow> Some (Inl e)
      | Some (Inr offer_ids) \<Rightarrow>
          (case fst (seller_create_stocks watch_remnants offer_ids) of
             Inl e \<Rightarrow> Some (Inl e)
           | Inr stocks \<Rightarrow>
               (case divide_list stocks 100 of
                  Inl e \<Rightarrow> Some (Inl e)
                | Inr chunks \<Rightarrow>
                    (case push_chunks update_stocks chunks of
                       Some e \<Rightarrow> Some (Inl e)
                     | None \<Rightarrow> Some (Inr (filter (\<lambda>s. stock s \<noteq> 0) stocks, stocks))))))"

text \<open>
  The filter of \<^verbatim>\<open>market.py\<close> reads \<^verbatim>\<open>stock.get("items")[0].get("count")\<close>; indexing an
  empty list raises.
\<close>

definition first_item_count :: "market_stock \<Rightarrow> error + int" where
  "first_item_count s = (case items s of [] \<Rightarrow> Inl IndexError | item # _ \<Rightarrow> Inr (item_count item))"

fun market_not_empty :: "market_stock list \<Rightarrow> error + market_stock list" where
  "market_not_empty [] = Inr []"
| "market_not_empty (s # rest) =
     (case first_item_count s of
        Inl e \<Rightarrow> Inl e
      | Inr c \<Rightarrow>
          (case market_not_empty rest of
             Inl e \<Rightarrow> Inl e
           | Inr kept \<Rightarrow> Inr (if c \<noteq> 0 then s # kept else kept)))"

definition market_upload_stocks ::
  "string \<Rightarrow> (string \<Rightarrow> error + market_result) \<Rightarrow> (market_stock list \<Rightarrow> error option)
    \<Rightarrow> watch list \<Rightarrow> string \<Rightarrow> (error + market_stock list \<times> market_stock list) option"
where
  "market_upload_stocks date get_product_list update_stocks watch_remnants warehouse_id =
     (case market_get_offer_ids get_product_list of
        None \<Rightarrow> None
      | Some (Inl e) \<Rightarrow> Some (Inl e)
      | Some (Inr offer_ids) \<Rightarrow>
          (case fst (market_create_stocks date watch_remnants offer_ids warehouse_id) of
             Inl e \<Rightarrow> Some (Inl e)
           | Inr stocks \<Rightarrow>
               (case divide_list stocks 2000 of
                  Inl e \<Rightarrow> Some (Inl e)
                | Inr chunks \<Rightarrow>
                    (case push_chunks update_stocks chunks of
                       Some e \<Rightarrow> Some (Inl e)
                     | None \<Rightarrow>
                         (case market_not_empty stocks of
                            Inl e \<Rightarrow> Some (Inl e)
                          | Inr not_empty \<Rightarrow> Some (Inr (not_empty, stocks)))))))"

section \<open>Reading digits\<close>

lemmas eval_int = int_str_def read_digits_def max_str_digits_def strip_def is_space_def
  is_digit_def digit_val_def decimal_def to_ascii_def


lemma not_digit_underscore [simp]: "\<not> is_digit (CHR ''_'')"
  by (simp add: is_digit_def)












section \<open>The normalisers\<close>






section \<open>Batching\<close>

lemma upt_Suc_shift: "[0..<Suc m] = 0 # map Suc [0..<m]"
proof -
  have "[0..<Suc m] = 0 # [Suc 0..<Suc m]" by (rule upt_conv_Cons) simp
  then show ?thesis by (simp only: map_Suc_upt)
qed

lemma chunk_count:
  assumes "0 < n" "0 < L"
  shows "(L + n - 1) div n = Suc ((L - n + n - 1) div n)"
proof -
  obtain k where k: "L = Suc k" using assms by (cases L) auto
  have A: "(k + n) div n = Suc (k div n)" using assms div_add_self2 [of n k] by simp
  have B: "(Suc k - n + n - 1) div n = k div n"
  proof (cases "n \<le> Suc k")
    case True
    then show ?thesis by simp
  next
    case False
    then have "Suc k - n + n - 1 < n" "k < n" using assms by simp_all
    then show ?thesis by simp
  qed
  show ?thesis using A B by (simp add: k)
qed

lemma range_step_nonempty:
  assumes "0 < n" "0 < L"
  shows "range_step L n = 0 # map (\<lambda>i. i + n) (range_step (L - n) n)"
  unfolding range_step_def chunk_count [OF assms] upt_Suc_shift
  by (simp add: o_def)

lemma range_step_empty: "range_step 0 n = []"
  by (cases "n = 0") (simp_all add: range_step_def)

lemma chunks_unfold:
  assumes "0 < n" "lst \<noteq> []"
  shows "map (\<lambda>i. slice lst i (i + n)) (range_step (length lst) n) =
         take n lst # map (\<lambda>i. slice (drop n lst) i (i + n)) (range_step (length (drop n lst)) n)"
proof -
  have "range_step (length lst) n = 0 # map (\<lambda>i. i + n) (range_step (length lst - n) n)"
    using assms by (intro range_step_nonempty) simp_all
  then show ?thesis by (simp add: slice_def o_def add.commute)
qed

lemma chunks_empty_iff:
  assumes "0 < n"
  shows "map (\<lambda>i. slice lst i (i + n)) (range_step (length lst) n) = [] \<longleftrightarrow> lst = []"
proof (cases "lst = []")
  case True
  then show ?thesis by (simp add: range_step_empty)
next
  case False
  then show ?thesis using chunks_unfold [OF assms False] by simp
qed

lemma chunks_props:
  assumes "0 < n"
  shows "concat (map (\<lambda>i. slice lst i (i + n)) (range_step (length lst) n)) = lst \<and>
         (\<forall>c\<in>set (map (\<lambda>i. slice lst i (i + n)) (range_step (length lst) n)).
            c \<noteq> [] \<and> length c \<le> n) \<and>
         (\<forall>c\<in>set (butlast (map (\<lambda>i. slice lst i (i + n)) (range_step (length lst) n))).
            length c = n)"
proof (induction lst rule: length_induct)
  case (1 lst)
  show ?case
  proof (cases "lst = []")
    case True
    then show ?thesis by (simp add: range_step_empty)
  next
    case False
    define r where "r = drop n lst"
    define cs where "cs = map (\<lambda>i. slice r i (i + n)) (range_step (length r) n)"
    have less: "length r < length lst" using False assms by (simp add: r_def)
    have ih: "concat cs = r \<and> (\<forall>c\<in>set cs. c \<noteq> [] \<and> length c \<le> n) \<and>
              (\<forall>c\<in>set (butlast cs). length c = n)"
      using 1 less unfolding cs_def by blast
    have unf: "map (\<lambda>i. slice lst i (i + n)) (range_step (length lst) n) = take n lst # cs"
      using chunks_unfold [OF assms False] by (simp add: cs_def r_def)
    have full: "cs \<noteq> [] \<Longrightarrow> length (take n lst) = n"
    proof -
      assume "cs \<noteq> []"
      then have "r \<noteq> []" using chunks_empty_iff [OF assms, of r] by (simp add: cs_def)
      then show ?thesis by (simp add: r_def)
    qed
    have t: "take n lst \<noteq> []" "length (take n lst) \<le> n" using False assms by simp_all
    have c1: "concat (take n lst # cs) = lst" using ih by (simp add: r_def)
    have c2: "\<forall>c\<in>set (take n lst # cs). c \<noteq> [] \<and> length c \<le> n" using ih t by simp
    have c3: "\<forall>c\<in>set (butlast (take n lst # cs)). length c = n"
    proof (cases "cs = []")
      case True
      then show ?thesis by simp
    next
      case False
      then show ?thesis using ih full by simp
    qed
    show ?thesis unfolding unf using c1 c2 c3 by blast
  qed
qed

text \<open>
  Claim C6. For a chunk size \<open>n \<ge> 1\<close>, \<^verbatim>\<open>divide\<close> yields chunks whose concatenation,
  in order, is the input list; every chunk is non-empty and has at most \<open>n\<close> elements, and
  every chunk but the last has exactly \<open>n\<close>.
\<close>

theorem divide_round_trip:
  assumes "1 \<le> n"
  shows "\<exists>chunks. divide_list lst n = Inr chunks \<and> concat chunks = lst \<and>
           (\<forall>c\<in>set chunks. c \<noteq> [] \<and> length c \<le> nat n) \<and>
           (\<forall>c\<in>set (butlast chunks). length c = nat n)"
proof -
  have "0 < nat n" using assms by simp
  from chunks_props [OF this, of lst] show ?thesis using assms by (simp add: divide_list_def)
qed

theorem divide_round_trip_witness:
  "(1::int) \<le> 3 \<and>
   divide_list [1, 2, 3, 4, 5, 6, 7 :: nat] 3 = Inr [[1, 2, 3], [4, 5, 6], [7]] \<and>
   concat [[1, 2, 3], [4, 5, 6], [7 :: nat]] = [1, 2, 3, 4, 5, 6, 7]"
proof -
  have h: "(1::int) \<le> 3" by simp
  have v: "divide_list [1, 2, 3, 4, 5, 6, 7 :: nat] 3 = Inr [[1, 2, 3], [4, 5, 6], [7]]"
    by code_simp
  obtain chunks where c: "divide_list [1, 2, 3, 4, 5, 6, 7 :: nat] 3 = Inr chunks"
    "concat chunks = [1, 2, 3, 4, 5, 6, 7]"
    using divide_round_trip [OF h, of "[1, 2, 3, 4, 5, 6, 7 :: nat]"] by blast
  from c v have "chunks = [[1, 2, 3], [4, 5, 6], [7]]" by simp
  with c v h show ?thesis by simp
qed

section \<open>Reconciliation: every offer gets one stock record\<close>

lemma seller_loop_mset:
  "seller_stocks_loop ws ids acc = (Inr out, ids') \<Longrightarrow>
   mset (map stock_offer_id out) + mset ids' = mset (map stock_offer_id acc) + mset ids"
proof (induction ws arbitrary: ids acc)
  case Nil
  then show ?case by simp
next
  case (Cons w ws)
  show ?case
  proof (cases "py_str (Kod w) \<in> set ids")
    case False
    then show ?thesis using Cons by simp
  next
    case True
    then obtain st where st: "stock_count (Kolichestvo w) = Inr st"
      using Cons.prems by (cases "stock_count (Kolichestvo w)") auto
    have "seller_stocks_loop ws (remove1 (py_str (Kod w)) ids)
            (acc @ [\<lparr>stock_offer_id = py_str (Kod w), stock = st\<rparr>]) = (Inr out, ids')"
      using Cons.prems True st by simp
    from Cons.IH [OF this] show ?thesis using True by simp
  qed
qed

lemma seller_create_stocks_mset:
  assumes "fst (seller_create_stocks ws ids) = Inr stocks"
  shows "mset (map stock_offer_id stocks) = mset ids"
proof -
  obtain r ids' where l: "seller_stocks_loop ws ids [] = (r, ids')" by (cases "seller_stocks_loop ws ids []")
  then obtain out where r: "r = Inr out" and s: "stocks = out @ map (\<lambda>offer_id. \<lparr>stock_offer_id = offer_id, stock = 0\<rparr>) ids'"
    using assms by (cases r) (auto simp: seller_create_stocks_def)
  have "mset (map stock_offer_id out) + mset ids' = mset ids"
    using seller_loop_mset [of ws ids "[]" out ids'] l r by simp
  then show ?thesis by (simp add: s o_def)
qed

lemma market_loop_mset:
  "market_stocks_loop wid date ws ids acc = (Inr out, ids') \<Longrightarrow>
   mset (map sku out) + mset ids' = mset (map sku acc) + mset ids"
proof (induction ws arbitrary: ids acc)
  case Nil
  then show ?case by simp
next
  case (Cons w ws)
  show ?case
  proof (cases "py_str (Kod w) \<in> set ids")
    case False
    then show ?thesis using Cons by simp
  next
    case True
    then obtain st where st: "stock_count (Kolichestvo w) = Inr st"
      using Cons.prems by (cases "stock_count (Kolichestvo w)") auto
    have "market_stocks_loop wid date ws (remove1 (py_str (Kod w)) ids)
            (acc @ [\<lparr>sku = py_str (Kod w), warehouseId = wid,
                      items = [\<lparr>item_count = st, item_type = ''FIT'', updatedAt = date\<rparr>]\<rparr>])
          = (Inr out, ids')"
      using Cons.prems True st by simp
    from Cons.IH [OF this] show ?thesis using True by simp
  qed
qed

lemma market_create_stocks_mset:
  assumes "fst (market_create_stocks date ws ids wid) = Inr stocks"
  shows "mset (map sku stocks) = mset ids"
proof -
  obtain r ids' where l: "market_stocks_loop wid date ws ids [] = (r, ids')"
    by (cases "market_stocks_loop wid date ws ids []")
  then obtain out where r: "r = Inr out"
    and s: "stocks = out @ map (\<lambda>offer_id. \<lparr>sku = offer_id, warehouseId = wid,
              items = [\<lparr>item_count = 0, item_type = ''FIT'', updatedAt = date\<rparr>]\<rparr>) ids'"
    using assms by (cases r) (auto simp: market_create_stocks_def)
  have "mset (map sku out) + mset ids' = mset ids"
    using market_loop_mset [of wid date ws ids "[]" out ids'] l r by simp
  then show ?thesis by (simp add: s o_def)
qed

lemma mset_eq_facts:
  assumes "mset xs = mset ys"
  shows "length xs = length ys" "set xs = set ys" "distinct ys \<Longrightarrow> distinct xs"
  using assms mset_eq_length mset_eq_setD mset_eq_imp_distinct_iff by blast+

lemma seller_loop_returns:
  "\<forall>w\<in>set ws. py_str (Kod w) \<in> set ids \<longrightarrow> \<not> isl (stock_count (Kolichestvo w)) \<Longrightarrow>
   \<exists>out ids'. seller_stocks_loop ws ids acc = (Inr out, ids')"
proof (induction ws arbitrary: ids acc)
  case Nil
  then show ?case by simp
next
  case (Cons w ws)
  show ?case
  proof (cases "py_str (Kod w) \<in> set ids")
    case False
    then show ?thesis using Cons by simp
  next
    case True
    then obtain st where st: "stock_count (Kolichestvo w) = Inr st"
      using Cons.prems by (cases "stock_count (Kolichestvo w)") auto
    have "\<forall>w'\<in>set ws. py_str (Kod w') \<in> set (remove1 (py_str (Kod w)) ids) \<longrightarrow>
            \<not> isl (stock_count (Kolichestvo w'))"
      using Cons.prems notin_set_remove1 by fastforce
    from Cons.IH [OF this] show ?thesis using True st by simp
  qed
qed

lemma market_loop_returns:
  "\<forall>w\<in>set ws. py_str (Kod w) \<in> set ids \<longrightarrow> \<not> isl (stock_count (Kolichestvo w)) \<Longrightarrow>
   \<exists>out ids'. market_stocks_loop wid date ws ids acc = (Inr out, ids')"
proof (induction ws arbitrary: ids acc)
  case Nil
  then show ?case by simp
next
  case (Cons w ws)
  show ?case
  proof (cases "py_str (Kod w) \<in> set ids")
    case False
    then show ?thesis using Cons by simp
  next
    case True
    then obtain st where st: "stock_count (Kolichestvo w) = Inr st"
      using Cons.prems by (cases "stock_count (Kolichestvo w)") auto
    have "\<forall>w'\<in>set ws. py_str (Kod w') \<in> set (remove1 (py_str (Kod w)) ids) \<longrightarrow>
            \<not> isl (stock_count (Kolichestvo w'))"
      using Cons.prems notin_set_remove1 by fastforce
    from Cons.IH [OF this] show ?thesis using True st by simp
  qed
qed

lemma seller_create_stocks_returns:
  assumes "\<forall>w\<in>set ws. py_str (Kod w) \<in> set ids \<longrightarrow> \<not> isl (stock_count (Kolichestvo w))"
  shows "\<exists>stocks. fst (seller_create_stocks ws ids) = Inr stocks"
  using seller_loop_returns [OF assms, of "[]"] by (auto simp: seller_create_stocks_def)

lemma market_create_stocks_returns:
  assumes "\<forall>w\<in>set ws. py_str (Kod w) \<in> set ids \<longrightarrow> \<not> isl (stock_count (Kolichestvo w))"
  shows "\<exists>stocks. fst (market_create_stocks date ws ids wid) = Inr stocks"
  using market_loop_returns [OF assms, of wid date "[]"] by (auto simp: market_create_stocks_def)

text \<open>
  Claim C1. Let the offer identifiers be pairwise distinct. When the quantity rule
  succeeds on every feed row whose code is an offer identifier, \<^verbatim>\<open>create_stocks\<close> returns
  a stock list; and every stock list it returns has as many records as there are offer
  identifiers, the offer identifiers of its records are exactly the known ones, and none
  occurs in two records. Nothing else is assumed about the feed, which may repeat codes.
  Both marketplaces.
\<close>

theorem reconciliation_complete:
  assumes "distinct offer_ids"
  shows "((\<forall>watch\<in>set watch_remnants. py_str (Kod watch) \<in> set offer_ids \<longrightarrow>
             \<not> isl (stock_count (Kolichestvo watch))) \<longrightarrow>
            (\<exists>stocks'. fst (seller_create_stocks watch_remnants offer_ids) = Inr stocks') \<and>
            (\<exists>mstocks'. fst (market_create_stocks date watch_remnants offer_ids warehouse_id)
                           = Inr mstocks'))
       \<and> (fst (seller_create_stocks watch_remnants offer_ids) = Inr stocks \<longrightarrow>
            length stocks = length offer_ids \<and>
            set (map stock_offer_id stocks) = set offer_ids \<and>
            distinct (map stock_offer_id stocks))
       \<and> (fst (market_create_stocks date watch_remnants offer_ids warehouse_id) = Inr mstocks \<longrightarrow>
            length mstocks = length offer_ids \<and>
            set (map sku mstocks) = set offer_ids \<and>
            distinct (map sku mstocks))"
proof (intro conjI impI)
  assume a: "\<forall>watch\<in>set watch_remnants. py_str (Kod watch) \<in> set offer_ids \<longrightarrow>
             \<not> isl (stock_count (Kolichestvo watch))"
  show "\<exists>stocks'. fst (seller_create_stocks watch_remnants offer_ids) = Inr stocks'"
    using seller_create_stocks_returns [OF a] .
  show "\<exists>mstocks'. fst (market_create_stocks date watch_remnants offer_ids warehouse_id)
                           = Inr mstocks'"
    using market_create_stocks_returns [OF a] .
next
  assume a: "fst (seller_create_stocks watch_remnants offer_ids) = Inr stocks"
  note m = mset_eq_facts [OF seller_create_stocks_mset [OF a]]
  show "length stocks = length offer_ids" using m(1) by simp
  show "set (map stock_offer_id stocks) = set offer_ids" using m(2) .
  show "distinct (map stock_offer_id stocks)" using m(3) assms .
next
  assume a: "fst (market_create_stocks date watch_remnants offer_ids warehouse_id) = Inr mstocks"
  note m = mset_eq_facts [OF market_create_stocks_mset [OF a]]
  show "length mstocks = length offer_ids" using m(1) by simp
  show "set (map sku mstocks) = set offer_ids" using m(2) .
  show "distinct (map sku mstocks)" using m(3) assms .
qed

theorem reconciliation_complete_witness:
  "fst (seller_create_stocks
          [\<lparr>Kod = CStr ''A'', Kolichestvo = CStr ''>10'', Tsena = CStr ''100.00 p.''\<rparr>,
           \<lparr>Kod = CStr ''B'', Kolichestvo = CStr ''1'', Tsena = CStr ''50.00 p.''\<rparr>,
           \<lparr>Kod = CStr ''A'', Kolichestvo = CStr ''3'', Tsena = CStr ''70.00 p.''\<rparr>]
          [''A'', ''B'', ''C''])
     = Inr [\<lparr>stock_offer_id = ''A'', stock = 100\<rparr>, \<lparr>stock_offer_id = ''B'', stock = 0\<rparr>,
            \<lparr>stock_offer_id = ''C'', stock = 0\<rparr>] \<and>
   fst (market_create_stocks ''2024-01-01T00:00:00Z''
          [\<lparr>Kod = CStr ''A'', Kolichestvo = CStr ''>10'', Tsena = CStr ''100.00 p.''\<rparr>,
           \<lparr>Kod = CStr ''B'', Kolichestvo = CStr ''1'', Tsena = CStr ''50.00 p.''\<rparr>,
           \<lparr>Kod = CStr ''A'', Kolichestvo = CStr ''3'', Tsena = CStr ''70.00 p.''\<rparr>]
          [''A'', ''B'', ''C''] ''w'')
     = Inr [\<lparr>sku = ''A'', warehouseId = ''w'',
              items = [\<lparr>item_count = 100, item_type = ''FIT'',
                        updatedAt = ''2024-01-01T00:00:00Z''\<rparr>]\<rparr>,
            \<lparr>sku = ''B'', warehouseId = ''w'',
              items = [\<lparr>item_count = 0, item_type = ''FIT'',
                        updatedAt = ''2024-01-01T00:00:00Z''\<rparr>]\<rparr>,
            \<lparr>sku = ''C'', warehouseId = ''w'',
              items = [\<lparr>item_count = 0, item_type = ''FIT'',
                        updatedAt = ''2024-01-01T00:00:00Z''\<rparr>]\<rparr>] \<and>
   length [\<lparr>stock_offer_id = ''A'', stock = 100\<rparr>, \<lparr>stock_offer_id = ''B'', stock = 0\<rparr>,
           \<lparr>stock_offer_id = ''C'', stock = 0\<rparr>] = length [''A'', ''B'', ''C'']"
proof -
  let ?feed = "[\<lparr>Kod = CStr ''A'', Kolichestvo = CStr ''>10'', Tsena = CStr ''100.00 p.''\<rparr>,
           \<lparr>Kod = CStr ''B'', Kolichestvo = CStr ''1'', Tsena = CStr ''50.00 p.''\<rparr>,
           \<lparr>Kod = CStr ''A'', Kolichestvo = CStr ''3'', Tsena = CStr ''70.00 p.''\<rparr>]"
  let ?stocks = "[\<lparr>stock_offer_id = ''A'', stock = 100\<rparr>, \<lparr>stock_offer_id = ''B'', stock = 0\<rparr>,
            \<lparr>stock_offer_id = ''C'', stock = 0\<rparr>]"
  have d: "distinct [''A'', ''B'', ''C'']" by simp
  have n: "\<forall>watch\<in>set ?feed. py_str (Kod watch) \<in> set [''A'', ''B'', ''C''] \<longrightarrow>
             \<not> isl (stock_count (Kolichestvo watch))"
    by (simp add: stock_count_def eval_int)
  have v: "fst (seller_create_stocks ?feed [''A'', ''B'', ''C'']) = Inr ?stocks"
    by (simp add: seller_create_stocks_def stock_count_def)
  have m: "fst (market_create_stocks ''2024-01-01T00:00:00Z'' ?feed [''A'', ''B'', ''C''] ''w'')
     = Inr [\<lparr>sku = ''A'', warehouseId = ''w'',
              items = [\<lparr>item_count = 100, item_type = ''FIT'',
                        updatedAt = ''2024-01-01T00:00:00Z''\<rparr>]\<rparr>,
            \<lparr>sku = ''B'', warehouseId = ''w'',
              items = [\<lparr>item_count = 0, item_type = ''FIT'',
                        updatedAt = ''2024-01-01T00:00:00Z''\<rparr>]\<rparr>,
            \<lparr>sku = ''C'', warehouseId = ''w'',
              items = [\<lparr>item_count = 0, item_type = ''FIT'',
                        updatedAt = ''2024-01-01T00:00:00Z''\<rparr>]\<rparr>]"
    by (simp add: market_create_stocks_def stock_count_def)
  note t = reconciliation_complete [OF d, of ?feed "''2024-01-01T00:00:00Z''" "''w''" ?stocks]
  from t n have "\<exists>mstocks'. fst (market_create_stocks ''2024-01-01T00:00:00Z'' ?feed
                    [''A'', ''B'', ''C''] ''w'') = Inr mstocks'"
    by blast
  moreover from t v have "length ?stocks = length [''A'', ''B'', ''C'']" by blast
  ultimately show ?thesis using v m by blast
qed

section \<open>Reconciliation: offers absent from the feed\<close>

lemma seller_loop_remaining:
  "seller_stocks_loop ws ids acc = (Inr out, ids') \<Longrightarrow> x \<in> set ids \<Longrightarrow>
   x \<notin> (\<lambda>w. py_str (Kod w)) ` set ws \<Longrightarrow> x \<in> set ids'"
  by (induction ws arbitrary: ids acc) (auto split: if_splits sum.splits)

lemma seller_loop_codes:
  "seller_stocks_loop ws ids acc = (Inr out, ids') \<Longrightarrow> s \<in> set out \<Longrightarrow>
   s \<in> set acc \<or> stock_offer_id s \<in> (\<lambda>w. py_str (Kod w)) ` set ws"
  by (induction ws arbitrary: ids acc) (fastforce split: if_splits sum.splits)+

lemma market_loop_remaining:
  "market_stocks_loop wid date ws ids acc = (Inr out, ids') \<Longrightarrow> x \<in> set ids \<Longrightarrow>
   x \<notin> (\<lambda>w. py_str (Kod w)) ` set ws \<Longrightarrow> x \<in> set ids'"
  by (induction ws arbitrary: ids acc) (auto split: if_splits sum.splits)

lemma market_loop_codes:
  "market_stocks_loop wid date ws ids acc = (Inr out, ids') \<Longrightarrow> s \<in> set out \<Longrightarrow>
   s \<in> set acc \<or> sku s \<in> (\<lambda>w. py_str (Kod w)) ` set ws"
  by (induction ws arbitrary: ids acc) (fastforce split: if_splits sum.splits)+

lemma seller_prices_codes:
  "seller_prices_loop ws ids acc = Inr out \<Longrightarrow> p \<in> set out \<Longrightarrow>
   p \<in> set acc \<or> price_offer_id p \<in> (\<lambda>w. py_str (Kod w)) ` set ws"
  by (induction ws arbitrary: acc) (fastforce split: if_splits sum.splits)+

lemma market_prices_codes:
  "market_prices_loop ws ids acc = Inr out \<Longrightarrow> p \<in> set out \<Longrightarrow>
   p \<in> set acc \<or> offer_price_id p \<in> (\<lambda>w. py_str (Kod w)) ` set ws"
  by (induction ws arbitrary: acc) (fastforce split: if_splits sum.splits)+

lemma seller_zero_fill:
  assumes "fst (seller_create_stocks ws ids) = Inr stocks" "x \<in> set ids"
    "x \<notin> (\<lambda>w. py_str (Kod w)) ` set ws"
  shows "\<lparr>stock_offer_id = x, stock = 0\<rparr> \<in> set stocks \<and>
         (\<forall>s\<in>set stocks. stock_offer_id s = x \<longrightarrow> stock s = 0)"
proof -
  obtain r ids' where l: "seller_stocks_loop ws ids [] = (r, ids')"
    by (cases "seller_stocks_loop ws ids []")
  then obtain out where r: "r = Inr out"
    and s: "stocks = out @ map (\<lambda>offer_id. \<lparr>stock_offer_id = offer_id, stock = 0\<rparr>) ids'"
    using assms(1) by (cases r) (auto simp: seller_create_stocks_def)
  have "x \<in> set ids'" using seller_loop_remaining l r assms(2,3) by blast
  moreover have "\<forall>s\<in>set out. stock_offer_id s \<noteq> x"
    using seller_loop_codes [of ws ids "[]" out ids'] l r assms(3) by auto
  ultimately show ?thesis unfolding s by auto
qed

lemma market_zero_fill:
  assumes "fst (market_create_stocks date ws ids wid) = Inr stocks" "x \<in> set ids"
    "x \<notin> (\<lambda>w. py_str (Kod w)) ` set ws"
  shows "\<lparr>sku = x, warehouseId = wid,
           items = [\<lparr>item_count = 0, item_type = ''FIT'', updatedAt = date\<rparr>]\<rparr> \<in> set stocks \<and>
         (\<forall>s\<in>set stocks. sku s = x \<longrightarrow> map item_count (items s) = [0])"
proof -
  obtain r ids' where l: "market_stocks_loop wid date ws ids [] = (r, ids')"
    by (cases "market_stocks_loop wid date ws ids []")
  then obtain out where r: "r = Inr out"
    and s: "stocks = out @ map (\<lambda>offer_id. \<lparr>sku = offer_id, warehouseId = wid,
              items = [\<lparr>item_count = 0, item_type = ''FIT'', updatedAt = date\<rparr>]\<rparr>) ids'"
    using assms(1) by (cases r) (auto simp: market_create_stocks_def)
  have "x \<in> set ids'" using market_loop_remaining l r assms(2,3) by blast
  moreover have "\<forall>s\<in>set out. sku s \<noteq> x"
    using market_loop_codes [of wid date ws ids "[]" out ids'] l r assms(3) by auto
  ultimately show ?thesis unfolding s by auto
qed

text \<open>
  Claim C4. An offer identifier of the list that is the code of no feed row gets a stock
  record with count 0 from \<^verbatim>\<open>create_stocks\<close>, no stock record of it has another count, and
  \<^verbatim>\<open>create_prices\<close> emits no price record for it. Both marketplaces; each function is taken
  on a feed on which it returns.
\<close>

theorem zero_fill:
  assumes "oid \<in> set offer_ids"
    and "oid \<notin> (\<lambda>watch. py_str (Kod watch)) ` set watch_remnants"
  shows "(fst (seller_create_stocks watch_remnants offer_ids) = Inr stocks \<longrightarrow>
            \<lparr>stock_offer_id = oid, stock = 0\<rparr> \<in> set stocks \<and>
            (\<forall>s\<in>set stocks. stock_offer_id s = oid \<longrightarrow> stock s = 0))
       \<and> (seller_create_prices watch_remnants offer_ids = Inr prices \<longrightarrow>
            oid \<notin> price_offer_id ` set prices)
       \<and> (fst (market_create_stocks date watch_remnants offer_ids warehouse_id) = Inr mstocks \<longrightarrow>
            \<lparr>sku = oid, warehouseId = warehouse_id,
              items = [\<lparr>item_count = 0, item_type = ''FIT'', updatedAt = date\<rparr>]\<rparr> \<in> set mstocks \<and>
            (\<forall>s\<in>set mstocks. sku s = oid \<longrightarrow> map item_count (items s) = [0]))
       \<and> (market_create_prices watch_remnants offer_ids = Inr mprices \<longrightarrow>
            oid \<notin> offer_price_id ` set mprices)"
proof (intro conjI impI)
  assume "fst (seller_create_stocks watch_remnants offer_ids) = Inr stocks"
  from seller_zero_fill [OF this assms]
  show "\<lparr>stock_offer_id = oid, stock = 0\<rparr> \<in> set stocks"
    "\<forall>s\<in>set stocks. stock_offer_id s = oid \<longrightarrow> stock s = 0" by blast+
next
  assume "seller_create_prices watch_remnants offer_ids = Inr prices"
  then show "oid \<notin> price_offer_id ` set prices"
    using seller_prices_codes [of watch_remnants offer_ids "[]" prices] assms(2)
    by (auto simp: seller_create_prices_def)
next
  assume "fst (market_create_stocks date watch_remnants offer_ids warehouse_id) = Inr mstocks"
  from market_zero_fill [OF this assms]
  show "\<lparr>sku = oid, warehouseId = warehouse_id,
              items = [\<lparr>item_count = 0, item_type = ''FIT'', updatedAt = date\<rparr>]\<rparr> \<in> set mstocks"
    "\<forall>s\<in>set mstocks. sku s = oid \<longrightarrow> map item_count (items s) = [0]" by blast+
next
  assume "market_create_prices watch_remnants offer_ids = Inr mprices"
  then show "oid \<notin> offer_price_id ` set mprices"
    using market_prices_codes [of watch_remnants offer_ids "[]" mprices] assms(2)
    by (auto simp: market_create_prices_def)
qed


theorem zero_fill_witness:
  "''C'' \<in> set [''A'', ''C''] \<and>
   ''C'' \<notin> (\<lambda>watch. py_str (Kod watch)) `
     set [\<lparr>Kod = CStr ''A'', Kolichestvo = CStr ''>10'', Tsena = CStr ''100.00 p.''\<rparr>] \<and>
   fst (seller_create_stocks
          [\<lparr>Kod = CStr ''A'', Kolichestvo = CStr ''>10'', Tsena = CStr ''100.00 p.''\<rparr>]
          [''A'', ''C''])
     = Inr [\<lparr>stock_offer_id = ''A'', stock = 100\<rparr>, \<lparr>stock_offer_id = ''C'', stock = 0\<rparr>] \<and>
   \<lparr>stock_offer_id = ''C'', stock = 0\<rparr>
     \<in> set [\<lparr>stock_offer_id = ''A'', stock = 100\<rparr>, \<lparr>stock_offer_id = ''C'', stock = 0\<rparr>]"
proof -
  have h1: "''C'' \<in> set [''A'', ''C'']" by simp
  have h2: "''C'' \<notin> (\<lambda>watch. py_str (Kod watch)) `
     set [\<lparr>Kod = CStr ''A'', Kolichestvo = CStr ''>10'', Tsena = CStr ''100.00 p.''\<rparr>]"
    by simp
  have v: "fst (seller_create_stocks
          [\<lparr>Kod = CStr ''A'', Kolichestvo = CStr ''>10'', Tsena = CStr ''100.00 p.''\<rparr>]
          [''A'', ''C''])
     = Inr [\<lparr>stock_offer_id = ''A'', stock = 100\<rparr>, \<lparr>stock_offer_id = ''C'', stock = 0\<rparr>]"
    by (simp add: seller_create_stocks_def stock_count_def)
  from zero_fill [OF h1 h2, THEN conjunct1, rule_format, OF v] h1 h2 v
  show ?thesis by blast
qed

section \<open>The values carried by the records\<close>



lemma market_loop_counts:
  "market_stocks_loop wid date ws ids acc = (Inr out, ids') \<Longrightarrow> s \<in> set out \<Longrightarrow>
   s \<in> set acc \<or>
   (\<exists>w\<in>set ws. \<exists>st. stock_count (Kolichestvo w) = Inr st \<and>
      items s = [\<lparr>item_count = st, item_type = ''FIT'', updatedAt = date\<rparr>])"
  by (induction ws arbitrary: ids acc) (fastforce split: if_splits sum.splits)+











section \<open>Rows that fail normalisation\<close>

lemma seller_loop_append:
  "seller_stocks_loop (pre @ rest) ids acc =
     (case seller_stocks_loop pre ids acc of
        (Inl e, ids') \<Rightarrow> (Inl e, ids')
      | (Inr out, ids') \<Rightarrow> seller_stocks_loop rest ids' out)"
  by (induction pre arbitrary: ids acc) (auto split: sum.splits)

lemma market_loop_append:
  "market_stocks_loop wid date (pre @ rest) ids acc =
     (case market_stocks_loop wid date pre ids acc of
        (Inl e, ids') \<Rightarrow> (Inl e, ids')
      | (Inr out, ids') \<Rightarrow> market_stocks_loop wid date rest ids' out)"
  by (induction pre arbitrary: ids acc) (auto split: sum.splits)

lemma seller_stocks_abort:
  assumes "py_str (Kod row) \<in> set ids"
    and "py_str (Kod row) \<notin> (\<lambda>w. py_str (Kod w)) ` set pre"
    and "isl (stock_count (Kolichestvo row))"
  shows "isl (fst (seller_create_stocks (pre @ row # post) ids))"
proof -
  obtain r ids' where l: "seller_stocks_loop pre ids [] = (r, ids')"
    by (cases "seller_stocks_loop pre ids []")
  show ?thesis
  proof (cases r)
    case (Inl e)
    then show ?thesis using l by (simp add: seller_create_stocks_def seller_loop_append)
  next
    case (Inr out)
    then have "py_str (Kod row) \<in> set ids'"
      using seller_loop_remaining l assms(1,2) by blast
    moreover obtain e where "stock_count (Kolichestvo row) = Inl e"
      using assms(3) by (cases "stock_count (Kolichestvo row)") auto
    ultimately show ?thesis
      using l Inr by (simp add: seller_create_stocks_def seller_loop_append)
  qed
qed

lemma market_stocks_abort:
  assumes "py_str (Kod row) \<in> set ids"
    and "py_str (Kod row) \<notin> (\<lambda>w. py_str (Kod w)) ` set pre"
    and "isl (stock_count (Kolichestvo row))"
  shows "isl (fst (market_create_stocks date (pre @ row # post) ids wid))"
proof -
  obtain r ids' where l: "market_stocks_loop wid date pre ids [] = (r, ids')"
    by (cases "market_stocks_loop wid date pre ids []")
  show ?thesis
  proof (cases r)
    case (Inl e)
    then show ?thesis using l by (simp add: market_create_stocks_def market_loop_append)
  next
    case (Inr out)
    then have "py_str (Kod row) \<in> set ids'"
      using market_loop_remaining l assms(1,2) by blast
    moreover obtain e where "stock_count (Kolichestvo row) = Inl e"
      using assms(3) by (cases "stock_count (Kolichestvo row)") auto
    ultimately show ?thesis
      using l Inr by (simp add: market_create_stocks_def market_loop_append)
  qed
qed

lemma seller_prices_abort:
  "w \<in> set ws \<Longrightarrow> py_str (Kod w) \<in> set ids \<Longrightarrow> isl (price_conversion (Tsena w)) \<Longrightarrow>
   isl (seller_prices_loop ws ids acc)"
  by (induction ws arbitrary: acc) (auto split: sum.splits)

lemma market_prices_abort:
  "w \<in> set ws \<Longrightarrow> py_str (Kod w) \<in> set ids \<Longrightarrow> isl (price_value (Tsena w)) \<Longrightarrow>
   isl (market_prices_loop ws ids acc)"
  by (induction ws arbitrary: acc) (auto split: sum.splits)

text \<open>
  Claim C8 as stated fails. \<^verbatim>\<open>create_stocks\<close> and \<^verbatim>\<open>create_prices\<close> are separate functions
  and neither looks at the other's column: on a matched row whose price text is \<open>''n/a''\<close>,
  for which the price value of \<^verbatim>\<open>market.py\<close> raises, \<^verbatim>\<open>create_stocks\<close> still returns the
  stock record of the row. \<^verbatim>\<open>create_prices\<close> of \<^verbatim>\<open>seller.py\<close> does not raise on that row
  either: it emits a price record with the empty string as price.
\<close>

theorem price_failure_counterexample:
  "py_str (Kod \<lparr>Kod = CStr ''A'', Kolichestvo = CStr ''5'', Tsena = CStr ''n/a''\<rparr>) \<in> set [''A'']
   \<and> price_value (Tsena \<lparr>Kod = CStr ''A'', Kolichestvo = CStr ''5'', Tsena = CStr ''n/a''\<rparr>)
       = Inl ValueError
   \<and> fst (market_create_stocks ''2024-01-01T00:00:00Z''
            [\<lparr>Kod = CStr ''A'', Kolichestvo = CStr ''5'', Tsena = CStr ''n/a''\<rparr>] [''A''] ''w'')
       = Inr [\<lparr>sku = ''A'', warehouseId = ''w'',
               items = [\<lparr>item_count = 5, item_type = ''FIT'',
                         updatedAt = ''2024-01-01T00:00:00Z''\<rparr>]\<rparr>]
   \<and> seller_create_prices
        [\<lparr>Kod = CStr ''A'', Kolichestvo = CStr ''5'', Tsena = CStr ''n/a''\<rparr>] [''A'']
       = Inr [\<lparr>auto_action_enabled = ''UNKNOWN'', currency_code = ''RUB'',
               price_offer_id = ''A'', old_price = ''0'', price = ''''\<rparr>]"
  by (simp add: market_create_stocks_def stock_count_def seller_create_prices_def
        price_value_def re_sub_non_digits_def split_first_def eval_int)

text \<open>
  Claim C8, amended. Let a feed row have its code among the offer identifiers. If no
  earlier row has the same code and the quantity rule raises on the row, \<^verbatim>\<open>create_stocks\<close>
  raises and returns no stock record, for both marketplaces. If the price value raises on
  the row, \<^verbatim>\<open>create_prices\<close> of \<^verbatim>\<open>market.py\<close> raises and returns no price record; if
  \<^verbatim>\<open>price_conversion\<close> raises on it, so does \<^verbatim>\<open>create_prices\<close> of \<^verbatim>\<open>seller.py\<close>.
\<close>

theorem normalization_abort:
  assumes "py_str (Kod row) \<in> set offer_ids"
  shows "(py_str (Kod row) \<notin> (\<lambda>watch. py_str (Kod watch)) ` set pre \<and>
          isl (stock_count (Kolichestvo row)) \<longrightarrow>
            isl (fst (seller_create_stocks (pre @ row # post) offer_ids)) \<and>
            isl (fst (market_create_stocks date (pre @ row # post) offer_ids warehouse_id)))
       \<and> (isl (price_value (Tsena row)) \<longrightarrow>
            isl (market_create_prices (pre @ row # post) offer_ids))
       \<and> (isl (price_conversion (Tsena row)) \<longrightarrow>
            isl (seller_create_prices (pre @ row # post) offer_ids))"
  using assms seller_stocks_abort [of row offer_ids pre post]
    market_stocks_abort [of row offer_ids pre date post warehouse_id]
    seller_prices_abort [of row "pre @ row # post" offer_ids "[]"]
    market_prices_abort [of row "pre @ row # post" offer_ids "[]"]
  by (simp add: seller_create_prices_def market_create_prices_def)

theorem normalization_abort_witness:
  "py_str (Kod \<lparr>Kod = CStr ''A'', Kolichestvo = CStr ''abc'', Tsena = CStr ''n/a''\<rparr>) \<in> set [''A'']
   \<and> isl (stock_count (Kolichestvo \<lparr>Kod = CStr ''A'', Kolichestvo = CStr ''abc'', Tsena = CStr ''n/a''\<rparr>))
   \<and> isl (fst (seller_create_stocks
        ([] @ \<lparr>Kod = CStr ''A'', Kolichestvo = CStr ''abc'', Tsena = CStr ''n/a''\<rparr> # [])
        [''A'']))
   \<and> isl (price_value (Tsena \<lparr>Kod = CStr ''A'', Kolichestvo = CStr ''abc'', Tsena = CStr ''n/a''\<rparr>))
   \<and> isl (market_create_prices
        ([] @ \<lparr>Kod = CStr ''A'', Kolichestvo = CStr ''abc'', Tsena = CStr ''n/a''\<rparr> # [])
        [''A''])"
proof -
  let ?row = "\<lparr>Kod = CStr ''A'', Kolichestvo = CStr ''abc'', Tsena = CStr ''n/a''\<rparr>"
  have h: "py_str (Kod ?row) \<in> set [''A'']" by simp
  have q: "isl (stock_count (Kolichestvo ?row))" by (simp add: stock_count_def eval_int)
  have p: "isl (price_value (Tsena ?row))"
    by (simp add: price_value_def re_sub_non_digits_def split_first_def eval_int)
  have n: "py_str (Kod ?row) \<notin> (\<lambda>watch. py_str (Kod watch)) ` set []" by simp
  from normalization_abort [OF h, of "[]" "[]"] q p n h show ?thesis by blast
qed


section \<open>Paging\<close>

lemma seller_loop_served:
  "seller_served f cursor acc ps \<Longrightarrow>
   seller_pages_loop f cursor acc = Some (Inr (acc @ concat (map result_items ps)))"
proof (induction f cursor acc ps rule: seller_served.induct)
  case (1 f cursor acc)
  then show ?case by simp
next
  case (2 f cursor acc p)
  then show ?case by (subst seller_pages_loop.simps) simp
next
  case (3 f cursor acc p q ps)
  then show ?case by (subst seller_pages_loop.simps) simp
qed

lemma market_loop_served:
  "market_served g cursor ps \<Longrightarrow>
   market_pages_loop g cursor acc = Some (Inr (acc @ concat (map offerMappingEntries ps)))"
proof (induction g cursor ps arbitrary: acc rule: market_served.induct)
  case (1 g cursor)
  then show ?case by simp
next
  case (2 g cursor p)
  then show ?case
    by (subst market_pages_loop.simps) (auto simp: last_page_def split: option.splits)
next
  case (3 g cursor p q ps)
  then show ?case
    by (subst market_pages_loop.simps) (auto split: option.splits)
qed

text \<open>
  Claim C5 as stated fails: the offer identifiers are gathered in a list and nothing
  removes duplicates. A single Ozon page that lists the same offer twice gives the
  identifier twice.
\<close>

theorem duplicate_offer_ids_counterexample:
  "seller_served
     (\<lambda>cursor. Inr \<lparr>result_items = [\<lparr>offer_id = ''A''\<rparr>, \<lparr>offer_id = ''A''\<rparr>],
                     result_total = 2, result_last_id = ''''\<rparr>) [] []
     [\<lparr>result_items = [\<lparr>offer_id = ''A''\<rparr>, \<lparr>offer_id = ''A''\<rparr>],
       result_total = 2, result_last_id = ''''\<rparr>]
   \<and> seller_get_offer_ids
       (\<lambda>cursor. Inr \<lparr>result_items = [\<lparr>offer_id = ''A''\<rparr>, \<lparr>offer_id = ''A''\<rparr>],
                       result_total = 2, result_last_id = ''''\<rparr>)
     = Some (Inr [''A'', ''A''])
   \<and> \<not> distinct [''A'', ''A'']"
  by (simp add: seller_get_offer_ids_def seller_pages_loop.simps)

text \<open>
  Claim C5, amended. When the marketplace serves a run of pages that ends with the first
  page whose continuation signal is satisfied (Ozon: the reported total equals the number of
  products gathered so far; Yandex Market: the next page token is missing or empty),
  \<^verbatim>\<open>get_offer_ids\<close> returns after that page, and its result is the list of the offer
  identifiers of all pages of the run, in page order, each as often as the pages list it.
\<close>

theorem pagination_result:
  "(seller_served f [] [] ps \<longrightarrow>
      seller_get_offer_ids f = Some (Inr (map offer_id (concat (map result_items ps)))))
   \<and> (market_served g [] qs \<longrightarrow>
      market_get_offer_ids g =
        Some (Inr (map (\<lambda>product. shopSku (offer product))
                     (concat (map offerMappingEntries qs)))))"
  using seller_loop_served [of f "[]" "[]" ps] market_loop_served [of g "[]" qs "[]"]
  by (auto simp: seller_get_offer_ids_def market_get_offer_ids_def)

theorem pagination_result_witness:
  "seller_served
     (\<lambda>cursor. if cursor = [] then
                  Inr \<lparr>result_items = [\<lparr>offer_id = ''A''\<rparr>, \<lparr>offer_id = ''B''\<rparr>],
                       result_total = 3, result_last_id = ''B''\<rparr>
                else if cursor = ''B'' then
                  Inr \<lparr>result_items = [\<lparr>offer_id = ''C''\<rparr>],
                       result_total = 3, result_last_id = ''C''\<rparr>
                else Inl HTTPError) [] []
     [\<lparr>result_items = [\<lparr>offer_id = ''A''\<rparr>, \<lparr>offer_id = ''B''\<rparr>],
       result_total = 3, result_last_id = ''B''\<rparr>,
      \<lparr>result_items = [\<lparr>offer_id = ''C''\<rparr>], result_total = 3, result_last_id = ''C''\<rparr>]
   \<and> seller_get_offer_ids
       (\<lambda>cursor. if cursor = [] then
                  Inr \<lparr>result_items = [\<lparr>offer_id = ''A''\<rparr>, \<lparr>offer_id = ''B''\<rparr>],
                       result_total = 3, result_last_id = ''B''\<rparr>
                else if cursor = ''B'' then
                  Inr \<lparr>result_items = [\<lparr>offer_id = ''C''\<rparr>],
                       result_total = 3, result_last_id = ''C''\<rparr>
                else Inl HTTPError)
     = Some (Inr [''A'', ''B'', ''C''])"
proof -
  let ?f = "\<lambda>cursor. if cursor = [] then
                  Inr \<lparr>result_items = [\<lparr>offer_id = ''A''\<rparr>, \<lparr>offer_id = ''B''\<rparr>],
                       result_total = 3, result_last_id = ''B''\<rparr>
                else if cursor = ''B'' then
                  Inr \<lparr>result_items = [\<lparr>offer_id = ''C''\<rparr>],
                       result_total = 3, result_last_id = ''C''\<rparr>
                else Inl HTTPError"
  let ?ps = "[\<lparr>result_items = [\<lparr>offer_id = ''A''\<rparr>, \<lparr>offer_id = ''B''\<rparr>],
       result_total = 3, result_last_id = ''B''\<rparr>,
      \<lparr>result_items = [\<lparr>offer_id = ''C''\<rparr>], result_total = 3, result_last_id = ''C''\<rparr>]"
  have h: "seller_served ?f [] [] ?ps" by simp
  from pagination_result [of ?f ?ps, THEN conjunct1, rule_format, OF h] h
  show ?thesis by simp
qed

section \<open>The stock upload pipelines\<close>

lemma market_not_empty_filter:
  "market_not_empty stocks = Inr kept \<Longrightarrow>
   kept = filter (\<lambda>s. first_item_count s \<noteq> Inr 0) stocks"
  by (induction stocks arbitrary: kept) (auto split: sum.splits if_splits)

lemma market_not_empty_total:
  "\<forall>s\<in>set stocks. items s \<noteq> [] \<Longrightarrow>
   market_not_empty stocks = Inr (filter (\<lambda>s. first_item_count s \<noteq> Inr 0) stocks)"
  by (induction stocks) (auto simp: first_item_count_def split: list.splits)

lemma market_items_single:
  assumes "fst (market_create_stocks date ws ids wid) = Inr stocks" and "s \<in> set stocks"
  shows "items s \<noteq> []"
proof -
  obtain r ids' where l: "market_stocks_loop wid date ws ids [] = (r, ids')"
    by (cases "market_stocks_loop wid date ws ids []")
  then obtain out where r: "r = Inr out"
    and st: "stocks = out @ map (\<lambda>offer_id. \<lparr>sku = offer_id, warehouseId = wid,
              items = [\<lparr>item_count = 0, item_type = ''FIT'', updatedAt = date\<rparr>]\<rparr>) ids'"
    using assms(1) by (cases r) (auto simp: market_create_stocks_def)
  show ?thesis
  proof (cases "s \<in> set out")
    case True
    then show ?thesis using market_loop_counts [of wid date ws ids "[]" out ids' s] l r by auto
  next
    case False
    then show ?thesis using assms(2) st by auto
  qed
qed

text \<open>
  Claim C10. When the steps of the pipeline succeed (the offer identifiers are fetched,
  \<^verbatim>\<open>create_stocks\<close> returns the stock list, and no chunk upload raises), \<^verbatim>\<open>upload_stocks\<close>
  returns the pair whose second component is that stock list and whose first component is
  the sublist, in the same order, of the records whose count is not zero. Conversely, a
  pair that \<^verbatim>\<open>upload_stocks\<close> returns is of this form. Both marketplaces.
\<close>

theorem upload_stocks_result:
  "(seller_get_offer_ids f = Some (Inr ids) \<and>
    fst (seller_create_stocks watch_remnants ids) = Inr stocks' \<and>
    divide_list stocks' 100 = Inr chunks \<and> push_chunks update chunks = None \<longrightarrow>
      seller_upload_stocks f update watch_remnants
        = Some (Inr (filter (\<lambda>s. stock s \<noteq> 0) stocks', stocks')))
   \<and> (market_get_offer_ids g = Some (Inr mids) \<and>
       fst (market_create_stocks date watch_remnants mids warehouse_id) = Inr mstocks' \<and>
       divide_list mstocks' 2000 = Inr mchunks \<and> push_chunks mupdate mchunks = None \<longrightarrow>
      market_upload_stocks date g mupdate watch_remnants warehouse_id
        = Some (Inr (filter (\<lambda>s. first_item_count s \<noteq> Inr 0) mstocks', mstocks')))
   \<and> (seller_upload_stocks f update watch_remnants = Some (Inr (not_empty, stocks)) \<longrightarrow>
      (\<exists>offer_ids. seller_get_offer_ids f = Some (Inr offer_ids) \<and>
         fst (seller_create_stocks watch_remnants offer_ids) = Inr stocks) \<and>
      not_empty = filter (\<lambda>s. stock s \<noteq> 0) stocks)
   \<and> (market_upload_stocks date g mupdate watch_remnants warehouse_id
        = Some (Inr (mnot_empty, mstocks)) \<longrightarrow>
      (\<exists>offer_ids. market_get_offer_ids g = Some (Inr offer_ids) \<and>
         fst (market_create_stocks date watch_remnants offer_ids warehouse_id) = Inr mstocks) \<and>
      mnot_empty = filter (\<lambda>s. first_item_count s \<noteq> Inr 0) mstocks)"
proof (intro conjI impI)
  assume "seller_get_offer_ids f = Some (Inr ids) \<and>
    fst (seller_create_stocks watch_remnants ids) = Inr stocks' \<and>
    divide_list stocks' 100 = Inr chunks \<and> push_chunks update chunks = None"
  then show "seller_upload_stocks f update watch_remnants
        = Some (Inr (filter (\<lambda>s. stock s \<noteq> 0) stocks', stocks'))"
    by (simp add: seller_upload_stocks_def)
next
  assume a: "market_get_offer_ids g = Some (Inr mids) \<and>
       fst (market_create_stocks date watch_remnants mids warehouse_id) = Inr mstocks' \<and>
       divide_list mstocks' 2000 = Inr mchunks \<and> push_chunks mupdate mchunks = None"
  then have "\<forall>s\<in>set mstocks'. items s \<noteq> []" using market_items_single by blast
  then have "market_not_empty mstocks'
               = Inr (filter (\<lambda>s. first_item_count s \<noteq> Inr 0) mstocks')"
    by (rule market_not_empty_total)
  then show "market_upload_stocks date g mupdate watch_remnants warehouse_id
        = Some (Inr (filter (\<lambda>s. first_item_count s \<noteq> Inr 0) mstocks', mstocks'))"
    using a by (simp add: market_upload_stocks_def)
next
  assume a: "seller_upload_stocks f update watch_remnants = Some (Inr (not_empty, stocks))"
  then show "\<exists>offer_ids. seller_get_offer_ids f = Some (Inr offer_ids) \<and>
         fst (seller_create_stocks watch_remnants offer_ids) = Inr stocks"
    by (auto simp: seller_upload_stocks_def split: option.splits sum.splits)
  from a show "not_empty = filter (\<lambda>s. stock s \<noteq> 0) stocks"
    by (auto simp: seller_upload_stocks_def split: option.splits sum.splits)
next
  assume a: "market_upload_stocks date g mupdate watch_remnants warehouse_id
        = Some (Inr (mnot_empty, mstocks))"
  then show "\<exists>offer_ids. market_get_offer_ids g = Some (Inr offer_ids) \<and>
         fst (market_create_stocks date watch_remnants offer_ids warehouse_id) = Inr mstocks"
    by (auto simp: market_upload_stocks_def split: option.splits sum.splits)
  from a show "mnot_empty = filter (\<lambda>s. first_item_count s \<noteq> Inr 0) mstocks"
    by (auto simp: market_upload_stocks_def split: option.splits sum.splits
          dest: market_not_empty_filter)
qed

theorem upload_stocks_result_witness:
  "seller_upload_stocks
     (\<lambda>cursor. Inr \<lparr>result_items = [\<lparr>offer_id = ''A''\<rparr>, \<lparr>offer_id = ''B''\<rparr>],
                     result_total = 2, result_last_id = ''B''\<rparr>)
     (\<lambda>chunk. None)
     [\<lparr>Kod = CStr ''A'', Kolichestvo = CStr ''>10'', Tsena = CStr ''100.00 p.''\<rparr>]
   = Some (Inr ([\<lparr>stock_offer_id = ''A'', stock = 100\<rparr>],
                [\<lparr>stock_offer_id = ''A'', stock = 100\<rparr>, \<lparr>stock_offer_id = ''B'', stock = 0\<rparr>]))
   \<and> market_upload_stocks ''2024-01-01T00:00:00Z''
     (\<lambda>page. Inr \<lparr>offerMappingEntries = [\<lparr>offer = \<lparr>shopSku = ''A''\<rparr>\<rparr>,
                                            \<lparr>offer = \<lparr>shopSku = ''B''\<rparr>\<rparr>],
                   paging = \<lparr>nextPageToken = None\<rparr>\<rparr>)
     (\<lambda>chunk. None)
     [\<lparr>Kod = CStr ''A'', Kolichestvo = CStr ''>10'', Tsena = CStr ''100.00 p.''\<rparr>] ''w''
   = Some (Inr ([\<lparr>sku = ''A'', warehouseId = ''w'',
                   items = [\<lparr>item_count = 100, item_type = ''FIT'',
                             updatedAt = ''2024-01-01T00:00:00Z''\<rparr>]\<rparr>],
                [\<lparr>sku = ''A'', warehouseId = ''w'',
                   items = [\<lparr>item_count = 100, item_type = ''FIT'',
                             updatedAt = ''2024-01-01T00:00:00Z''\<rparr>]\<rparr>,
                 \<lparr>sku = ''B'', warehouseId = ''w'',
                   items = [\<lparr>item_count = 0, item_type = ''FIT'',
                             updatedAt = ''2024-01-01T00:00:00Z''\<rparr>]\<rparr>]))"
proof -
  let ?f = "\<lambda>cursor :: string. Inr \<lparr>result_items = [\<lparr>offer_id = ''A''\<rparr>, \<lparr>offer_id = ''B''\<rparr>],
                     result_total = 2, result_last_id = ''B''\<rparr> :: error + seller_result"
  let ?g = "\<lambda>page :: string. Inr \<lparr>offerMappingEntries = [\<lparr>offer = \<lparr>shopSku = ''A''\<rparr>\<rparr>,
                                            \<lparr>offer = \<lparr>shopSku = ''B''\<rparr>\<rparr>],
                   paging = \<lparr>nextPageToken = None\<rparr>\<rparr> :: error + market_result"
  let ?feed = "[\<lparr>Kod = CStr ''A'', Kolichestvo = CStr ''>10'', Tsena = CStr ''100.00 p.''\<rparr>]"
  let ?st = "[\<lparr>stock_offer_id = ''A'', stock = 100\<rparr>, \<lparr>stock_offer_id = ''B'', stock = 0\<rparr>]"
  let ?ma = "\<lparr>sku = ''A'', warehouseId = ''w'',
                   items = [\<lparr>item_count = 100, item_type = ''FIT'',
                             updatedAt = ''2024-01-01T00:00:00Z''\<rparr>]\<rparr>"
  let ?mb = "\<lparr>sku = ''B'', warehouseId = ''w'',
                   items = [\<lparr>item_count = 0, item_type = ''FIT'',
                             updatedAt = ''2024-01-01T00:00:00Z''\<rparr>]\<rparr>"
  have s1: "seller_get_offer_ids ?f = Some (Inr [''A'', ''B''])"
    by (simp add: seller_get_offer_ids_def seller_pages_loop.simps)
  have s2: "fst (seller_create_stocks ?feed [''A'', ''B'']) = Inr ?st"
    by (simp add: seller_create_stocks_def stock_count_def)
  have s3: "divide_list ?st 100 = Inr [?st]"
    by (simp add: divide_list_def range_step_def slice_def)
  have s4: "push_chunks (\<lambda>chunk. None) [?st] = None" by simp
  have m1: "market_get_offer_ids ?g = Some (Inr [''A'', ''B''])"
    by (simp add: market_get_offer_ids_def market_pages_loop.simps)
  have m2: "fst (market_create_stocks ''2024-01-01T00:00:00Z'' ?feed [''A'', ''B''] ''w'')
              = Inr [?ma, ?mb]"
    by (simp add: market_create_stocks_def stock_count_def)
  have m3: "divide_list [?ma, ?mb] 2000 = Inr [[?ma, ?mb]]"
    by (simp add: divide_list_def range_step_def slice_def)
  have m4: "push_chunks (\<lambda>chunk. None) [[?ma, ?mb]] = None" by simp
  note t = upload_stocks_result [of ?f "[''A'', ''B'']" ?feed ?st "[?st]" "\<lambda>chunk. None"
              ?g "[''A'', ''B'']" "''2024-01-01T00:00:00Z''" "''w''" "[?ma, ?mb]" "[[?ma, ?mb]]"
              "\<lambda>chunk. None"]
  from t s1 s2 s3 s4 have "seller_upload_stocks ?f (\<lambda>chunk. None) ?feed
        = Some (Inr (filter (\<lambda>s. stock s \<noteq> 0) ?st, ?st))"
    by blast
  then have a: "seller_upload_stocks ?f (\<lambda>chunk. None) ?feed
        = Some (Inr ([\<lparr>stock_offer_id = ''A'', stock = 100\<rparr>], ?st))"
    by simp
  from t m1 m2 m3 m4 have "market_upload_stocks ''2024-01-01T00:00:00Z'' ?g (\<lambda>chunk. None)
        ?feed ''w''
        = Some (Inr (filter (\<lambda>s. first_item_count s \<noteq> Inr 0) [?ma, ?mb], [?ma, ?mb]))"
    by blast
  then have b: "market_upload_stocks ''2024-01-01T00:00:00Z'' ?g (\<lambda>chunk. None) ?feed ''w''
        = Some (Inr ([?ma], [?ma, ?mb]))"
    by (simp add: first_item_count_def)
  from a b show ?thesis by blast
qed

section \<open>The caller's list of offer identifiers\<close>

text \<open>
  Claim C7. \<^verbatim>\<open>create_stocks\<close> does not leave the caller's list unchanged: after the call on
  one feed row with code \<open>''A''\<close> and the list \<open>[''A'']\<close>, the list is empty. \<^verbatim>\<open>main\<close> of
  \<^verbatim>\<open>seller.py\<close> passes the same list on to \<^verbatim>\<open>create_prices\<close> (lines 414 and 418), which
  then builds no price record, whereas on the list as fetched it builds the record of the
  row.
\<close>

theorem offer_ids_mutated:
  "snd (seller_create_stocks
          [\<lparr>Kod = CStr ''A'', Kolichestvo = CStr ''5'', Tsena = CStr ''100.00''\<rparr>] [''A'']) = []
   \<and> (case seller_create_stocks
            [\<lparr>Kod = CStr ''A'', Kolichestvo = CStr ''5'', Tsena = CStr ''100.00''\<rparr>] [''A'']
       of (stocks, offer_ids') \<Rightarrow>
         seller_create_prices
           [\<lparr>Kod = CStr ''A'', Kolichestvo = CStr ''5'', Tsena = CStr ''100.00''\<rparr>] offer_ids')
      = Inr []
   \<and> seller_create_prices
        [\<lparr>Kod = CStr ''A'', Kolichestvo = CStr ''5'', Tsena = CStr ''100.00''\<rparr>] [''A'']
      = Inr [\<lparr>auto_action_enabled = ''UNKNOWN'', currency_code = ''RUB'',
              price_offer_id = ''A'', old_price = ''0'', price = ''100''\<rparr>]"
  by (simp add: seller_create_stocks_def seller_create_prices_def stock_count_def
        re_sub_non_digits_def split_first_def eval_int)


end
